theory Spec2Isabelle
  imports Complex_Main
begin

section \<open>Python values used by \<open>watcher.py\<close>\<close>

subsection \<open>Characters and strings\<close>

text \<open>
  A Python \<open>str\<close> is modelled as a \<^typ>\<open>string\<close> whose characters are the code points
  below 256. \<open>isspace\<close> is \<open>str.isspace\<close> on that range, which is also what \<open>\s\<close> matches
  and what \<open>str.strip()\<close> removes: TAB to CR, FS to US, space, NEL and NBSP. \<open>isdigit\<close> is
  what \<open>\d\<close> matches on that range, the ASCII digits. Code points from 256 on (further
  Unicode spaces and digits) are outside the model.
\<close>

definition isspace :: "char \<Rightarrow> bool" where
  "isspace c =
     (let n = (of_char c :: nat)
      in (9 \<le> n \<and> n \<le> 13) \<or> (28 \<le> n \<and> n \<le> 32) \<or> n = 133 \<or> n = 160)"

definition isdigit :: "char \<Rightarrow> bool" where
  "isdigit c = (let n = (of_char c :: nat) in 48 \<le> n \<and> n \<le> 57)"

definition dquote :: char where
  "dquote = CHR 0x22"

definition strip :: "string \<Rightarrow> string" where
  "strip s = rev (dropWhile isspace (rev (dropWhile isspace s)))"

text \<open>\<open>s.startswith('5')\<close>\<close>

definition startswith5 :: "string \<Rightarrow> bool" where
  "startswith5 s = (case s of [] \<Rightarrow> False | c # _ \<Rightarrow> c = CHR ''5'')"

subsection \<open>The five search patterns\<close>

text \<open>
  The patterns of \<open>parse_log_line\<close> have two shapes: \<open>key="([^"]*)"\<close> and \<open>key=(C+)\<close> for a
  character class \<open>C\<close>. Both are matched at the head of a string by a function returning
  group 1; \<open>re_search\<close> tries every start position from the left, as \<open>re.search\<close> does.
  The quantifiers are greedy, and backtracking cannot produce another group: \<open>[^"]*\<close> stops
  only at a quote or at the end, and nothing follows \<open>C+\<close>.
\<close>

fun strip_prefix :: "string \<Rightarrow> string \<Rightarrow> string option" where
  "strip_prefix [] s = Some s"
| "strip_prefix (p # ps) [] = None"
| "strip_prefix (p # ps) (c # cs) = (if p = c then strip_prefix ps cs else None)"

definition match_quoted :: "string \<Rightarrow> string \<Rightarrow> string option" where
  "match_quoted key s =
     (case strip_prefix (key @ [CHR ''='', dquote]) s of
        None \<Rightarrow> None
      | Some r \<Rightarrow> if dquote \<in> set r then Some (takeWhile (\<lambda>c. c \<noteq> dquote) r) else None)"

definition match_class :: "string \<Rightarrow> (char \<Rightarrow> bool) \<Rightarrow> string \<Rightarrow> string option" where
  "match_class key cls s =
     (case strip_prefix (key @ [CHR ''='']) s of
        None \<Rightarrow> None
      | Some r \<Rightarrow> (let g = takeWhile cls r in if g = [] then None else Some g))"

fun re_search :: "(string \<Rightarrow> string option) \<Rightarrow> string \<Rightarrow> string option" where
  "re_search m [] = m []"
| "re_search m (c # cs) = (case m (c # cs) of Some g \<Rightarrow> Some g | None \<Rightarrow> re_search m cs)"

text \<open>\<open>pool="([^"]*)"\<close>, \<open>release="([^"]*)"\<close>, \<open>upstream_status=([\d-]+)\<close>,
  \<open>upstream_addr=([^\s]+)\<close> and \<open>request_time=([\d.]+)\<close>.\<close>

definition pool_match :: "string \<Rightarrow> string option" where
  "pool_match line = re_search (match_quoted ''pool'') line"

definition release_match :: "string \<Rightarrow> string option" where
  "release_match line = re_search (match_quoted ''release'') line"

definition upstream_status_match :: "string \<Rightarrow> string option" where
  "upstream_status_match line =
     re_search (match_class ''upstream_status'' (\<lambda>c. isdigit c \<or> c = CHR ''-'')) line"

definition upstream_addr_match :: "string \<Rightarrow> string option" where
  "upstream_addr_match line =
     re_search (match_class ''upstream_addr'' (\<lambda>c. \<not> isspace c)) line"

definition request_time_match :: "string \<Rightarrow> string option" where
  "request_time_match line =
     re_search (match_class ''request_time'' (\<lambda>c. isdigit c \<or> c = CHR ''.'')) line"

subsection \<open>Floating point\<close>

text \<open>
  A finite Python \<open>float\<close> is the rational it denotes. \<open>fl\<close> rounds a rational to the
  nearest binary64 value, ties to even, with gradual underflow; an arithmetic operation on
  floats, and the true division of two integers, is \<open>fl\<close> of the exact result. Overflow to
  infinity is written out only in \<open>float_of_group\<close>, the one place where the program can
  produce it: clock readings are finite, and a rate is at most 100.
\<close>

definition pow2 :: "int \<Rightarrow> rat" where
  "pow2 e = (if 0 \<le> e then 2 ^ nat e else 1 / 2 ^ nat (- e))"

definition round_half_even :: "rat \<Rightarrow> int" where
  "round_half_even x =
     (let f = \<lfloor>x\<rfloor>; d = x - of_int f
      in if d < 1 / 2 then f else if 1 / 2 < d then f + 1
         else if even f then f else f + 1)"

function bit_length :: "int \<Rightarrow> int" where
  "bit_length n = (if n \<le> 0 then 0 else 1 + bit_length (n div 2))"
  by pat_completeness auto
termination
  by (relation "measure nat") auto

text \<open>\<open>ilog2 x\<close> is \<open>\<lfloor>log\<^sub>2 x\<rfloor>\<close> for \<open>x > 0\<close>.\<close>

definition ilog2 :: "rat \<Rightarrow> int" where
  "ilog2 x =
     (let (p, q) = quotient_of x;
          e0 = bit_length p - bit_length q
      in if pow2 e0 \<le> x then e0 else e0 - 1)"

definition fl :: "rat \<Rightarrow> rat" where
  "fl x =
     (if x = 0 then 0
      else let a = \<bar>x\<bar>;
               e = max (ilog2 a - 52) (- 1074);
               m = round_half_even (a / pow2 e)
           in sgn x * of_int m * pow2 e)"

text \<open>\<open>round(x, 2)\<close>: the exact value of \<open>x\<close> rounded to two decimals, ties to even, then
  converted back to the nearest float.\<close>

definition py_round2 :: "rat \<Rightarrow> rat" where
  "py_round2 x = fl (of_int (round_half_even (x * 100)) / 100)"

datatype pyfloat = Finite rat | Inf

datatype error = ValueError | ZeroDivisionError

text \<open>
  \<open>float(g)\<close> for a group \<open>g\<close> of \<open>[\d.]+\<close>, the only strings the program converts: a string
  of digits and dots is a float literal when it has at most one dot and at least one digit;
  its value is the decimal number, correctly rounded, and infinity from \<open>2\<^sup>1\<^sup>0\<^sup>2\<^sup>4\<close> on.
  Any other such string raises \<open>ValueError\<close>.
\<close>

definition digits_value :: "string \<Rightarrow> nat" where
  "digits_value s = foldl (\<lambda>n c. 10 * n + (of_char c - 48)) 0 (filter isdigit s)"

definition float_of_group :: "string \<Rightarrow> error + pyfloat" where
  "float_of_group g =
     (if 1 < length (filter (\<lambda>c. c = CHR ''.'') g) \<or> filter isdigit g = [] then Inl ValueError
      else let frac = length (takeWhile isdigit (rev g));
               scale = (if CHR ''.'' \<in> set g then frac else 0);
               v = fl (of_nat (digits_value g) / 10 ^ scale)
           in if pow2 1024 \<le> v then Inr Inf else Inr (Finite v))"

section \<open>The watcher\<close>

subsection \<open>State and records\<close>

text \<open>
  The fields of \<open>LogWatcher\<close> that the detectors and the gate read or write, with the module
  global \<open>REQUESTS_AVAILABLE\<close>. \<open>last_pool\<close> and \<open>current_pool\<close> are \<open>None\<close> or a string;
  \<open>error_window\<close> is the deque, oldest entry first; \<open>last_alert_time\<close> is the dict from alert
  type to the clock reading of its last approval. Console output is not modelled, nor are
  the fields that only feed it (\<open>_last_log_check\<close>, \<open>_debug_count\<close>, \<open>log_file\<close>).
\<close>

record watcher =
  slack_webhook :: "string option"
  error_threshold :: rat
  window_size :: nat
  cooldown_sec :: int
  maintenance_mode :: bool
  requests_available :: bool
  total_lines_processed :: nat
  lines_with_pool :: nat
  last_pool :: "string option"
  error_window :: "bool list"
  last_alert_time :: "string \<rightharpoonup> rat"
  current_pool :: "string option"

text \<open>\<open>__init__\<close>, from the values read from the environment and the outcome of the
  import of \<open>requests\<close>. \<open>deque(maxlen=n)\<close> raises for a negative \<open>n\<close>, so a constructed
  watcher has a natural \<open>window_size\<close>; the threshold is taken to be a finite float.\<close>

definition init :: "string option \<Rightarrow> rat \<Rightarrow> nat \<Rightarrow> int \<Rightarrow> bool \<Rightarrow> bool \<Rightarrow> watcher" where
  "init webhook thr wsize cooldown maintenance requests =
     \<lparr>slack_webhook = webhook, error_threshold = thr, window_size = wsize,
      cooldown_sec = cooldown, maintenance_mode = maintenance, requests_available = requests,
      total_lines_processed = 0, lines_with_pool = 0, last_pool = None, error_window = [],
      last_alert_time = Map.empty, current_pool = None\<rparr>"

record log_data =
  pool :: string
  release :: string
  upstream_status :: "string option"
  upstream_addr :: "string option"
  request_time :: pyfloat
  timestamp :: string
  raw_line :: string

text \<open>The two alert dicts, told apart by their \<open>'type'\<close> entry.\<close>

datatype alert =
    Failover (from_pool: string) (to_pool: string) (failover_timestamp: string)
  | HighErrorRate (error_rate: rat) (threshold: rat) (alert_window_size: nat)
      (error_count: nat) (error_timestamp: string)

fun alert_type :: "alert \<Rightarrow> string" where
  "alert_type (Failover _ _ _) = ''failover''"
| "alert_type (HighErrorRate _ _ _ _ _) = ''high_error_rate''"

subsection \<open>\<open>parse_log_line\<close>\<close>

text \<open>
  \<open>ts\<close> is the reading of \<open>datetime.now().isoformat()\<close>. The counters are bumped as the
  source does, \<open>_lines_with_pool\<close> before the conversion of the request time, so that a
  \<open>ValueError\<close> caught by the \<open>except\<close> clause leaves it incremented.
\<close>

definition parse_log_line :: "string \<Rightarrow> string \<Rightarrow> watcher \<Rightarrow> log_data option \<times> watcher" where
  "parse_log_line ts line st =
     (let st1 = st\<lparr>total_lines_processed := total_lines_processed st + 1\<rparr>
      in if strip line = [] then (None, st1)
         else case pool_match line of
                None \<Rightarrow> (None, st1)
              | Some p \<Rightarrow>
                  (let st2 = st1\<lparr>lines_with_pool := lines_with_pool st1 + 1\<rparr>
                   in case (case request_time_match line of
                              None \<Rightarrow> Inr (Finite 0)
                            | Some g \<Rightarrow> float_of_group g) of
                        Inl e \<Rightarrow> (None, st2)
                      | Inr t \<Rightarrow>
                          (Some \<lparr>pool = p,
                                 release = (case release_match line of
                                              None \<Rightarrow> ''unknown'' | Some r \<Rightarrow> r),
                                 upstream_status = upstream_status_match line,
                                 upstream_addr = upstream_addr_match line,
                                 request_time = t,
                                 timestamp = ts,
                                 raw_line = strip line\<rparr>, st2)))"

subsection \<open>\<open>check_failover\<close>\<close>

definition check_failover :: "log_data \<Rightarrow> watcher \<Rightarrow> alert option \<times> watcher" where
  "check_failover ld st =
     (if pool ld = [] \<or> pool ld = ''unknown'' then (None, st)
      else
        let track = (if current_pool st \<noteq> Some (pool ld)
                     then st\<lparr>current_pool := Some (pool ld)\<rparr> else st);
            same = (None, track\<lparr>last_pool := Some (pool ld)\<rparr>)
        in case last_pool st of
             None \<Rightarrow> same
           | Some p \<Rightarrow>
               if p \<noteq> [] \<and> p \<noteq> pool ld
               then (Some (Failover p (pool ld) (timestamp ld)),
                     st\<lparr>last_pool := Some (pool ld)\<rparr>)
               else same)"

subsection \<open>\<open>check_error_rate\<close>\<close>

text \<open>\<open>deque.append\<close> with \<open>maxlen = n\<close>: the item is added on the right and, if the deque
  is then too long, the leftmost item is dropped.\<close>

definition deque_append :: "nat \<Rightarrow> 'a list \<Rightarrow> 'a \<Rightarrow> 'a list" where
  "deque_append n xs x = (let ys = xs @ [x] in if n < length ys then tl ys else ys)"

text \<open>
  The result is the alert dict, \<open>False\<close> (here \<open>None\<close>) or the exception raised: with
  \<open>window_size = 0\<close> the division \<open>error_count / current_window_size\<close> is by zero. The
  window has been written by then, so the state is returned in every case.
\<close>

definition check_error_rate :: "log_data \<Rightarrow> watcher \<Rightarrow> (error + alert option) \<times> watcher" where
  "check_error_rate ld st =
     (case upstream_status ld of
        None \<Rightarrow> (Inr None, st)
      | Some s \<Rightarrow>
          if s = [] then (Inr None, st)
          else
            let is_error = startswith5 s;
                st1 = st\<lparr>error_window := deque_append (window_size st) (error_window st) is_error\<rparr>;
                current_window_size = length (error_window st1)
            in if current_window_size < window_size st then (Inr None, st1)
               else
                 let error_count = length (filter (\<lambda>b. b) (error_window st1))
                 in if current_window_size = 0 then (Inl ZeroDivisionError, st1)
                    else
                      let rate = fl (fl (of_nat error_count / of_nat current_window_size) * 100)
                      in if error_threshold st < rate
                         then (Inr (Some (HighErrorRate (py_round2 rate) (error_threshold st)
                                            current_window_size error_count (timestamp ld))), st1)
                         else (Inr None, st1))"

text \<open>The truth value of \<open>log_data['upstream_status']\<close>: neither \<open>None\<close> nor empty.\<close>

definition has_status :: "log_data \<Rightarrow> bool" where
  "has_status ld = (upstream_status ld \<noteq> None \<and> upstream_status ld \<noteq> Some [])"

subsection \<open>\<open>can_send_alert\<close> and \<open>send_slack_alert\<close>\<close>

text \<open>\<open>now\<close> is the reading of \<open>time.time()\<close>; \<open>time_since_last\<close> is the local variable
  of that name, the float difference between the reading and \<open>last_alert_time.get(ty, 0)\<close>.\<close>

definition time_since_last :: "rat \<Rightarrow> string \<Rightarrow> watcher \<Rightarrow> rat" where
  "time_since_last now ty st =
     fl (now - (case last_alert_time st ty of None \<Rightarrow> 0 | Some t \<Rightarrow> t))"

definition can_send_alert :: "rat \<Rightarrow> string \<Rightarrow> watcher \<Rightarrow> bool \<times> watcher" where
  "can_send_alert now ty st =
     (if time_since_last now ty st < of_int (cooldown_sec st) then (False, st)
      else (True, st\<lparr>last_alert_time := (last_alert_time st)(ty \<mapsto> now)\<rparr>))"

text \<open>
  The outcome of \<open>requests.post\<close> is the environment's: a response with a status code, or
  an exception. \<open>posts\<close> is the list of the requests issued so far, each recorded as the
  alert its message is built from (the wording of the message is not modelled).
\<close>

datatype response = Status int | PostRaised

definition send_slack_alert ::
  "(alert \<Rightarrow> response) \<Rightarrow> rat \<Rightarrow> alert \<Rightarrow> watcher \<times> alert list \<Rightarrow> bool \<times> watcher \<times> alert list" where
  "send_slack_alert post now a w =
     (let (st, posts) = w
      in if slack_webhook st = None \<or> slack_webhook st = Some [] then (False, st, posts)
         else if maintenance_mode st then (False, st, posts)
         else if \<not> requests_available st then (False, st, posts)
         else case can_send_alert now (alert_type a) st of
                (False, st') \<Rightarrow> (False, st', posts)
              | (True, st') \<Rightarrow>
                  (case post a of
                     Status c \<Rightarrow> (c = 200, st', posts @ [a])
                   | PostRaised \<Rightarrow> (False, st', posts @ [a])))"

subsection \<open>The body of the loop of \<open>watch_logs\<close>\<close>

text \<open>
  One pass over a line read from the file. \<open>now1\<close> and \<open>now2\<close> are the clock readings of the
  two possible calls of \<open>can_send_alert\<close>. The first component of the result is the
  exception that leaves the loop, if any.
\<close>

definition watch_logs_step ::
  "(alert \<Rightarrow> response) \<Rightarrow> string \<Rightarrow> rat \<Rightarrow> rat \<Rightarrow> string \<Rightarrow> watcher \<times> alert list
     \<Rightarrow> error option \<times> watcher \<times> alert list" where
  "watch_logs_step post ts now1 now2 line w =
     (let (st, posts) = w
      in if line = [] then (None, st, posts)
         else case parse_log_line ts line st of
                (None, st1) \<Rightarrow> (None, st1, posts)
              | (Some ld, st1) \<Rightarrow>
                  (let (failover_alert, st2) = check_failover ld st1;
                       w3 = (case failover_alert of
                               None \<Rightarrow> (st2, posts)
                             | Some a \<Rightarrow> snd (send_slack_alert post now1 a (st2, posts)))
                   in if has_status ld
                      then case check_error_rate ld (fst w3) of
                             (Inl e, st4) \<Rightarrow> (Some e, st4, snd w3)
                           | (Inr None, st4) \<Rightarrow> (None, st4, snd w3)
                           | (Inr (Some a), st4) \<Rightarrow>
                               (None, snd (send_slack_alert post now2 a (st4, snd w3)))
                      else (None, w3)))"

subsection \<open>What a pass posts\<close>

text \<open>
  \<open>approves now a st\<close>: \<open>send_slack_alert\<close> passes its four guards (webhook set, no
  maintenance mode, \<open>requests\<close> importable, cooldown over) and goes on to post.
  \<open>step_posts\<close> lists the alerts of one record that are raised and approved in the state
  \<open>st1\<close> left by the parser, the failover alert first.
\<close>

definition approves :: "rat \<Rightarrow> alert \<Rightarrow> watcher \<Rightarrow> bool" where
  "approves now a st =
     (slack_webhook st \<noteq> None \<and> slack_webhook st \<noteq> Some [] \<and> \<not> maintenance_mode st
      \<and> requests_available st \<and> fst (can_send_alert now (alert_type a) st))"

definition step_posts :: "rat \<Rightarrow> rat \<Rightarrow> log_data \<Rightarrow> watcher \<Rightarrow> alert list" where
  "step_posts now1 now2 ld st1 =
     (case fst (check_failover ld st1) of
        Some a \<Rightarrow> if approves now1 a st1 then [a] else []
      | None \<Rightarrow> [])
     @ (case fst (check_error_rate ld st1) of
          Inr (Some e) \<Rightarrow> if approves now2 e st1 then [e] else []
        | _ \<Rightarrow> [])"

subsection \<open>Feeding a detector a sequence of records\<close>

text \<open>A record with a given pool, upstream status and timestamp, the release at its
  default and no address, request time or raw line.\<close>

definition record_of :: "string \<Rightarrow> string option \<Rightarrow> string \<Rightarrow> log_data" where
  "record_of p status ts =
     \<lparr>pool = p, release = ''unknown'', upstream_status = status, upstream_addr = None,
      request_time = Finite 0, timestamp = ts, raw_line = []\<rparr>"

text \<open>The events that \<open>check_failover\<close> raises over a sequence of records.\<close>

fun feed_failover :: "log_data list \<Rightarrow> watcher \<Rightarrow> alert list" where
  "feed_failover [] st = []"
| "feed_failover (ld # lds) st =
     (case check_failover ld st of
        (None, st') \<Rightarrow> feed_failover lds st'
      | (Some a, st') \<Rightarrow> a # feed_failover lds st')"

text \<open>The result of each call of \<open>check_error_rate\<close> over a sequence of records, with the
  window it leaves.\<close>

fun feed_error_rate :: "log_data list \<Rightarrow> watcher \<Rightarrow> ((error + alert option) \<times> bool list) list" where
  "feed_error_rate [] st = []"
| "feed_error_rate (ld # lds) st =
     (case check_error_rate ld st of
        (r, st') \<Rightarrow> (r, error_window st') # feed_error_rate lds st')"

subsection \<open>Example lines\<close>

text \<open>Log lines used as concrete inputs below; \<open>quoted s\<close> is \<open>s\<close> between double quotes.\<close>

definition quoted :: "string \<Rightarrow> string" where
  "quoted s = dquote # s @ [dquote]"

definition line_green_502 :: string where
  "line_green_502 = ''pool='' @ quoted ''green'' @ '' upstream_status=502''"

definition line_no_status :: string where
  "line_no_status = ''pool='' @ quoted ''blue'' @ '' release='' @ quoted ''v1''"

definition line_dash :: string where
  "line_dash = ''pool='' @ quoted ''blue'' @ '' upstream_status=- request_time=0.5''"

definition line_bad_time :: string where
  "line_bad_time = ''pool='' @ quoted ''blue'' @ '' request_time=1.2.3''"

definition line_no_pool :: string where
  "line_no_pool = ''upstream_status=- request_time=0.5''"

section \<open>Properties\<close>

subsection \<open>Failover detection\<close>

text \<open>The stored pool is never the empty string: it starts as \<open>None\<close> and is only ever
  set to a pool that passed the guard of \<open>check_failover\<close>.\<close>

lemma init_last_pool: "last_pool (init h t n c m r) \<noteq> Some []"
  by (simp add: init_def)

lemma check_failover_last_pool_nonempty:
  "last_pool st \<noteq> Some [] \<Longrightarrow> last_pool (snd (check_failover ld st)) \<noteq> Some []"
  by (auto simp: check_failover_def Let_def split: option.splits)

text \<open>
  C1. In a state whose stored pool is not the empty string, \<open>check_failover\<close> raises an
  event exactly when the stored pool is some \<open>p\<close> different from the observed pool and the
  observed pool is neither empty nor \<open>unknown\<close>, and the event is the failover from \<open>p\<close> to
  the observed pool. An empty or \<open>unknown\<close> pool returns no event and leaves the state as it
  is; any other pool becomes the stored pool. From a state with no stored pool, records
  with the pools blue, blue, green, green, blue raise exactly the events blue to green and
  green to blue, and the pools blue, unknown, green raise exactly the event blue to green.
\<close>

theorem check_failover_spec:
  assumes inv: "last_pool st \<noteq> Some []"
  shows "(\<forall>a. fst (check_failover ld st) = Some a \<longleftrightarrow>
            (\<exists>p. last_pool st = Some p \<and> p \<noteq> pool ld \<and> pool ld \<noteq> [] \<and> pool ld \<noteq> ''unknown''
                 \<and> a = Failover p (pool ld) (timestamp ld)))
       \<and> (pool ld = [] \<or> pool ld = ''unknown'' \<longrightarrow> check_failover ld st = (None, st))
       \<and> (pool ld \<noteq> [] \<and> pool ld \<noteq> ''unknown'' \<longrightarrow>
            last_pool (snd (check_failover ld st)) = Some (pool ld))
       \<and> (\<forall>lds. last_pool st = None
              \<and> map pool lds = [''blue'', ''blue'', ''green'', ''green'', ''blue''] \<longrightarrow>
            map (\<lambda>a. (alert_type a, from_pool a, to_pool a)) (feed_failover lds st)
              = [(''failover'', ''blue'', ''green''), (''failover'', ''green'', ''blue'')])
       \<and> (\<forall>lds. last_pool st = None \<and> map pool lds = [''blue'', ''unknown'', ''green''] \<longrightarrow>
            map (\<lambda>a. (alert_type a, from_pool a, to_pool a)) (feed_failover lds st)
              = [(''failover'', ''blue'', ''green'')])"
proof (intro conjI allI impI)
  fix a
  show "fst (check_failover ld st) = Some a \<longleftrightarrow>
          (\<exists>p. last_pool st = Some p \<and> p \<noteq> pool ld \<and> pool ld \<noteq> [] \<and> pool ld \<noteq> ''unknown''
               \<and> a = Failover p (pool ld) (timestamp ld))"
    using inv by (auto simp: check_failover_def Let_def split: option.splits)
next
  assume "pool ld = [] \<or> pool ld = ''unknown''"
  then show "check_failover ld st = (None, st)"
    by (auto simp: check_failover_def)
next
  assume "pool ld \<noteq> [] \<and> pool ld \<noteq> ''unknown''"
  then show "last_pool (snd (check_failover ld st)) = Some (pool ld)"
    by (auto simp: check_failover_def Let_def split: option.splits)
next
  fix lds :: "log_data list"
  assume "last_pool st = None \<and> map pool lds = [''blue'', ''blue'', ''green'', ''green'', ''blue'']"
  then show "map (\<lambda>a. (alert_type a, from_pool a, to_pool a)) (feed_failover lds st)
               = [(''failover'', ''blue'', ''green''), (''failover'', ''green'', ''blue'')]"
    by (auto simp: map_eq_Cons_conv check_failover_def Let_def)
next
  fix lds :: "log_data list"
  assume "last_pool st = None \<and> map pool lds = [''blue'', ''unknown'', ''green'']"
  then show "map (\<lambda>a. (alert_type a, from_pool a, to_pool a)) (feed_failover lds st)
               = [(''failover'', ''blue'', ''green'')]"
    by (auto simp: map_eq_Cons_conv check_failover_def Let_def)
qed

theorem check_failover_spec_witness:
  "last_pool (init None 2 200 300 False True) \<noteq> Some []
   \<and> check_failover (record_of [] None ''t0'') (init None 2 200 300 False True)
       = (None, init None 2 200 300 False True)
   \<and> last_pool (snd (check_failover (record_of ''blue'' None ''t0'') (init None 2 200 300 False True)))
       = Some ''blue''
   \<and> feed_failover (map (\<lambda>p. record_of p None ''t0'') [''blue'', ''blue'', ''green'', ''green'', ''blue''])
        (init None 2 200 300 False True)
       = [Failover ''blue'' ''green'' ''t0'', Failover ''green'' ''blue'' ''t0'']
   \<and> feed_failover (map (\<lambda>p. record_of p None ''t0'') [''blue'', ''unknown'', ''green''])
        (init None 2 200 300 False True)
       = [Failover ''blue'' ''green'' ''t0'']"
  using check_failover_spec [where st = "init None 2 200 300 False True"
      and ld = "record_of [] None ''t0''"]
    check_failover_spec [where st = "init None 2 200 300 False True"
      and ld = "record_of ''blue'' None ''t0''"]
  by (simp add: record_of_def init_def check_failover_def)

subsection \<open>The example lines, parsed\<close>

lemmas line_defs = quoted_def dquote_def

lemmas parse_defs = parse_log_line_def strip_def isspace_def isdigit_def pool_match_def
  release_match_def upstream_status_match_def upstream_addr_match_def request_time_match_def
  match_quoted_def match_class_def

lemma parse_line_green_502:
  "parse_log_line ts line_green_502 st =
     (Some \<lparr>pool = ''green'', release = ''unknown'', upstream_status = Some ''502'',
            upstream_addr = None, request_time = Finite 0, timestamp = ts,
            raw_line = line_green_502\<rparr>,
      st\<lparr>total_lines_processed := total_lines_processed st + 1,
         lines_with_pool := lines_with_pool st + 1\<rparr>)"
  by (simp add: line_green_502_def line_defs parse_defs)

lemma parse_line_no_status:
  "parse_log_line ts line_no_status st =
     (Some \<lparr>pool = ''blue'', release = ''v1'', upstream_status = None,
            upstream_addr = None, request_time = Finite 0, timestamp = ts,
            raw_line = line_no_status\<rparr>,
      st\<lparr>total_lines_processed := total_lines_processed st + 1,
         lines_with_pool := lines_with_pool st + 1\<rparr>)"
  by (simp add: line_no_status_def line_defs parse_defs)

lemma float_of_group_half: "float_of_group ''0.5'' = Inr (Finite (1 / 2))"
  by code_simp

lemma parse_line_dash:
  "parse_log_line ts line_dash st =
     (Some \<lparr>pool = ''blue'', release = ''unknown'', upstream_status = Some ''-'',
            upstream_addr = None, request_time = Finite (1 / 2), timestamp = ts,
            raw_line = line_dash\<rparr>,
      st\<lparr>total_lines_processed := total_lines_processed st + 1,
         lines_with_pool := lines_with_pool st + 1\<rparr>)"
  by (simp add: line_dash_def line_defs parse_defs float_of_group_half)

lemma parse_line_bad_time:
  "parse_log_line ts line_bad_time st =
     (None, st\<lparr>total_lines_processed := total_lines_processed st + 1,
               lines_with_pool := lines_with_pool st + 1\<rparr>)"
  by (simp add: line_bad_time_def line_defs parse_defs float_of_group_def)

lemma parse_line_no_pool:
  "parse_log_line ts line_no_pool st =
     (None, st\<lparr>total_lines_processed := total_lines_processed st + 1\<rparr>)"
  by (simp add: line_no_pool_def line_defs parse_defs)

subsection \<open>Frame lemmas\<close>

text \<open>What each operation leaves alone, and how \<open>send_slack_alert\<close> reads through
  \<open>approves\<close>.\<close>

lemma send_slack_alert_eq:
  "send_slack_alert post now a (st, posts) =
     (if approves now a st
      then (post a = Status 200, st\<lparr>last_alert_time := (last_alert_time st)(alert_type a \<mapsto> now)\<rparr>,
            posts @ [a])
      else (False, st, posts))"
  by (auto simp: send_slack_alert_def approves_def can_send_alert_def split: response.splits)

lemma approves_frame [simp]:
  "approves now a (st\<lparr>last_pool := lp\<rparr>) = approves now a st"
  "approves now a (st\<lparr>current_pool := cp\<rparr>) = approves now a st"
  "approves now a (st\<lparr>error_window := w\<rparr>) = approves now a st"
  "m (alert_type a) = last_alert_time st (alert_type a) \<Longrightarrow>
     approves now a (st\<lparr>last_alert_time := m\<rparr>) = approves now a st"
  by (simp_all add: approves_def can_send_alert_def time_since_last_def)

lemma check_failover_type:
  "check_failover ld st = (Some a, st') \<Longrightarrow> alert_type a = ''failover''"
  by (auto simp: check_failover_def Let_def split: option.splits if_splits)

lemma check_error_rate_type:
  "fst (check_error_rate ld st) = Inr (Some a) \<Longrightarrow> alert_type a = ''high_error_rate''"
  by (auto simp: check_error_rate_def Let_def split: option.splits if_splits)

lemma check_failover_frame:
  "\<exists>lp cp. snd (check_failover ld st) = st\<lparr>last_pool := lp, current_pool := cp\<rparr>"
proof -
  have "snd (check_failover ld st)
          = st\<lparr>last_pool := last_pool (snd (check_failover ld st)),
               current_pool := current_pool (snd (check_failover ld st))\<rparr>"
    by (auto simp: check_failover_def Let_def split: option.splits)
  then show ?thesis by blast
qed

lemma check_error_rate_cong:
  assumes "window_size s = window_size st" "error_threshold s = error_threshold st"
    "error_window s = error_window st"
  shows "check_error_rate ld s
           = (fst (check_error_rate ld st),
              s\<lparr>error_window := error_window (snd (check_error_rate ld st))\<rparr>)"
  using assms by (auto simp: check_error_rate_def Let_def split: option.splits)

lemma check_error_rate_no_status:
  "\<not> has_status ld \<Longrightarrow> check_error_rate ld st = (Inr None, st)"
  by (auto simp: check_error_rate_def has_status_def split: option.splits)

lemma check_error_rate_window_size:
  "window_size (snd (check_error_rate ld st)) = window_size st"
  by (auto simp: check_error_rate_def Let_def split: option.splits)

lemma check_error_rate_window:
  "upstream_status ld = Some s \<Longrightarrow> s \<noteq> [] \<Longrightarrow>
   error_window (snd (check_error_rate ld st))
     = deque_append (window_size st) (error_window st) (startswith5 s)"
  by (auto simp: check_error_rate_def Let_def)

lemma check_error_rate_partial:
  "length (error_window (snd (check_error_rate ld st))) < window_size st
   \<Longrightarrow> fst (check_error_rate ld st) = Inr None"
  by (auto simp: check_error_rate_def Let_def split: option.splits)

lemma check_error_rate_no_exception:
  "0 < window_size st \<Longrightarrow> fst (check_error_rate ld st) \<noteq> Inl e"
  by (cases "error_window st")
    (auto simp: check_error_rate_def deque_append_def Let_def split: option.splits)

lemma length_deque_append:
  "length xs < n \<Longrightarrow> length (deque_append n xs x) = Suc (length xs)"
  by (simp add: deque_append_def Let_def)

lemma parse_log_line_frame:
  "parse_log_line ts line st = (r, st1) \<Longrightarrow>
   \<exists>n k. st1 = st\<lparr>total_lines_processed := n, lines_with_pool := k\<rparr>"
proof -
  assume p: "parse_log_line ts line st = (r, st1)"
  have "snd (parse_log_line ts line st)
          = st\<lparr>total_lines_processed := total_lines_processed (snd (parse_log_line ts line st)),
               lines_with_pool := lines_with_pool (snd (parse_log_line ts line st))\<rparr>"
    by (auto simp: parse_log_line_def Let_def split: option.splits sum.splits)
  with p show ?thesis by (metis snd_conv)
qed

subsection \<open>One pass of the loop over a parsed record\<close>

lemma watch_logs_step_parsed:
  assumes "line \<noteq> []" "parse_log_line ts line st = (Some ld, st1)"
  shows "snd (snd (watch_logs_step post ts now1 now2 line (st, posts)))
           = posts @ step_posts now1 now2 ld st1"
    and "fst (watch_logs_step post ts now1 now2 line (st, posts))
           = (case fst (check_error_rate ld st1) of Inl e \<Rightarrow> Some e | Inr _ \<Rightarrow> None)"
    and "error_window (fst (snd (watch_logs_step post ts now1 now2 line (st, posts))))
           = error_window (snd (check_error_rate ld st1))"
    and "last_pool (fst (snd (watch_logs_step post ts now1 now2 line (st, posts))))
           = last_pool (snd (check_failover ld st1))"
    and "fst (snd (watch_logs_step post ts now1 now2 line (st, posts)))
           = fst (snd (watch_logs_step post' ts now1 now2 line (st, posts')))"
proof -
  obtain fa st2 where cf: "check_failover ld st1 = (fa, st2)"
    by (cases "check_failover ld st1")
  obtain lp cp where st2: "st2 = st1\<lparr>last_pool := lp, current_pool := cp\<rparr>"
    using check_failover_frame [of ld st1] cf by auto
  have lp: "last_pool (snd (check_failover ld st1)) = lp"
    using cf st2 by simp
  define r where "r = fst (check_error_rate ld st1)"
  define w where "w = error_window (snd (check_error_rate ld st1))"
  have cer: "check_error_rate ld s = (r, s\<lparr>error_window := w\<rparr>)"
    if "window_size s = window_size st1" "error_threshold s = error_threshold st1"
      "error_window s = error_window st1" for s
    unfolding r_def w_def using that by (rule check_error_rate_cong)
  have ns: "r = Inr None" "w = error_window st1" if "\<not> has_status ld"
    using that by (simp_all add: r_def w_def check_error_rate_no_status)
  have fty: "alert_type a = ''failover''" if "fa = Some a" for a
    using cf that check_failover_type by blast
  have ety: "alert_type e = ''high_error_rate''" if "r = Inr (Some e)" for e
    using that check_error_rate_type unfolding r_def by blast
  have fst_cf: "fst (check_failover ld st1) = fa" using cf by simp
  note unfold = watch_logs_step_def st2 send_slack_alert_eq cer Let_def
  show "snd (snd (watch_logs_step post ts now1 now2 line (st, posts)))
           = posts @ step_posts now1 now2 ld st1"
    unfolding step_posts_def r_def [symmetric] fst_cf
    using assms cf ns fty ety
    by (cases "has_status ld") (auto simp: unfold split: option.splits sum.splits)
  show "fst (watch_logs_step post ts now1 now2 line (st, posts))
           = (case fst (check_error_rate ld st1) of Inl e \<Rightarrow> Some e | Inr _ \<Rightarrow> None)"
    unfolding r_def [symmetric]
    using assms cf ns
    by (cases "has_status ld") (auto simp: unfold split: option.splits sum.splits)
  show "error_window (fst (snd (watch_logs_step post ts now1 now2 line (st, posts))))
           = error_window (snd (check_error_rate ld st1))"
    unfolding w_def [symmetric]
    using assms cf ns
    by (cases "has_status ld") (auto simp: unfold split: option.splits sum.splits)
  show "last_pool (fst (snd (watch_logs_step post ts now1 now2 line (st, posts))))
           = last_pool (snd (check_failover ld st1))"
    unfolding lp
    using assms cf ns
    by (cases "has_status ld") (auto simp: unfold split: option.splits sum.splits)
  define s3 where "s3 =
    (case fa of
       None \<Rightarrow> st2
     | Some a \<Rightarrow> if approves now1 a st1
                then st2\<lparr>last_alert_time := (last_alert_time st1)(''failover'' \<mapsto> now1)\<rparr>
                else st2)"
  define s5 where "s5 =
    (if has_status ld
     then case r of
            Inr (Some e) \<Rightarrow>
              if approves now2 e st1
              then s3\<lparr>error_window := w,
                      last_alert_time := (last_alert_time s3)(''high_error_rate'' \<mapsto> now2)\<rparr>
              else s3\<lparr>error_window := w\<rparr>
          | _ \<Rightarrow> s3\<lparr>error_window := w\<rparr>
     else s3)"
  have final: "fst (snd (watch_logs_step q ts now1 now2 line (st, ps))) = s5" for q ps
    unfolding s5_def s3_def
    using assms cf ns fty ety
    by (cases "has_status ld") (auto simp: unfold split: option.splits sum.splits)
  show "fst (snd (watch_logs_step post ts now1 now2 line (st, posts)))
           = fst (snd (watch_logs_step post' ts now1 now2 line (st, posts')))"
    by (simp only: final)
qed

lemma watch_logs_step_state_indep:
  "fst (snd (watch_logs_step post ts now1 now2 line (st, posts)))
     = fst (snd (watch_logs_step post' ts now1 now2 line (st, posts')))"
proof (cases "line = []")
  case True
  then show ?thesis by (simp add: watch_logs_step_def)
next
  case False
  obtain r st1 where p: "parse_log_line ts line st = (r, st1)"
    by (cases "parse_log_line ts line st")
  show ?thesis
  proof (cases r)
    case None
    with False p show ?thesis by (simp add: watch_logs_step_def)
  next
    case (Some ld)
    with False p show ?thesis by (intro watch_logs_step_parsed(5)) simp_all
  qed
qed

lemma watch_logs_step_no_exception:
  assumes "0 < window_size st"
  shows "fst (watch_logs_step post ts now1 now2 line (st, posts)) = None"
proof (cases "line = []")
  case True
  then show ?thesis by (simp add: watch_logs_step_def)
next
  case False
  obtain r st1 where p: "parse_log_line ts line st = (r, st1)"
    by (cases "parse_log_line ts line st")
  show ?thesis
  proof (cases r)
    case None
    with False p show ?thesis by (simp add: watch_logs_step_def)
  next
    case (Some ld)
    have "window_size st1 = window_size st"
      using parse_log_line_frame [OF p] by auto
    with assms have "\<And>e. fst (check_error_rate ld st1) \<noteq> Inl e"
      by (simp add: check_error_rate_no_exception)
    with False p Some show ?thesis
      by (simp add: watch_logs_step_parsed(2) split: sum.splits)
  qed
qed

text \<open>A pass of the loop keeps the stored pool different from the empty string.\<close>

lemma watch_logs_step_last_pool_nonempty:
  assumes "last_pool st \<noteq> Some []"
  shows "last_pool (fst (snd (watch_logs_step post ts now1 now2 line (st, posts)))) \<noteq> Some []"
proof (cases "line = []")
  case True
  with assms show ?thesis by (simp add: watch_logs_step_def)
next
  case False
  obtain r st1 where p: "parse_log_line ts line st = (r, st1)"
    by (cases "parse_log_line ts line st")
  have st1: "last_pool st1 = last_pool st"
    using parse_log_line_frame [OF p] by auto
  show ?thesis
  proof (cases r)
    case None
    with False p st1 assms show ?thesis by (simp add: watch_logs_step_def)
  next
    case (Some ld)
    with False p have "last_pool (fst (snd (watch_logs_step post ts now1 now2 line (st, posts))))
                         = last_pool (snd (check_failover ld st1))"
      by (simp add: watch_logs_step_parsed(4))
    with st1 assms show ?thesis
      by (simp add: check_failover_last_pool_nonempty)
  qed
qed

subsection \<open>Error-rate detection\<close>

text \<open>The two rates of the example, as binary64 computes them: \<open>(1 / 5) * 100\<close> and
  \<open>(2 / 5) * 100\<close> are exactly 20 and 40.\<close>

lemma rate_1_of_5: "fl (fl (1 / 5) * 100) = 20"
  by code_simp

lemma rate_2_of_5: "fl (fl (2 / 5) * 100) = 40"
  by code_simp

lemma rate_4_of_4: "fl (fl (4 / 4) * 100) = 100"
  by code_simp

lemma py_round2_40: "py_round2 40 = 40"
  by code_simp

lemma fl_0: "fl 0 = 0"
  by (simp add: fl_def)

text \<open>
  C2. With a window of 5 and a threshold of 20, starting from an empty window: five
  records with status 200 raise nothing; a sixth with status 500 leaves the window at one
  error in five, a rate of 20, which is not above the threshold, and raises nothing; a
  seventh with status 500 evicts the oldest entry, leaves two errors in five and raises the
  alert with error count 2, window size 5 and rate 40. Every other field of the state and
  of the records is arbitrary.
\<close>

theorem check_error_rate_example:
  "feed_error_rate
     [ld\<lparr>upstream_status := Some ''200''\<rparr>, ld\<lparr>upstream_status := Some ''200''\<rparr>,
      ld\<lparr>upstream_status := Some ''200''\<rparr>, ld\<lparr>upstream_status := Some ''200''\<rparr>,
      ld\<lparr>upstream_status := Some ''200''\<rparr>, ld\<lparr>upstream_status := Some ''500''\<rparr>,
      ld\<lparr>upstream_status := Some ''500''\<rparr>]
     (st\<lparr>window_size := 5, error_threshold := 20, error_window := []\<rparr>) =
     [(Inr None, [False]),
      (Inr None, [False, False]),
      (Inr None, [False, False, False]),
      (Inr None, [False, False, False, False]),
      (Inr None, [False, False, False, False, False]),
      (Inr None, [False, False, False, False, True]),
      (Inr (Some (HighErrorRate 40 20 5 2 (timestamp ld))), [False, False, False, True, True])]"
  by (simp add: check_error_rate_def deque_append_def startswith5_def Let_def
      rate_1_of_5 rate_2_of_5 py_round2_40 fl_0)

text \<open>As long as the statuses that enter the window do not fill it, no call raises.\<close>

lemma feed_error_rate_partial:
  "length (error_window st) + length (filter has_status lds) < window_size st
   \<Longrightarrow> \<forall>r \<in> set (feed_error_rate lds st). fst r = Inr None"
proof (induction lds arbitrary: st)
  case Nil
  then show ?case by simp
next
  case (Cons ld lds)
  obtain r st' where step: "check_error_rate ld st = (r, st')"
    by (cases "check_error_rate ld st")
  have ws: "window_size st' = window_size st"
    using check_error_rate_window_size [of ld st] step by simp
  show ?case
  proof (cases "has_status ld")
    case False
    with step have "r = Inr None" "st' = st"
      by (simp_all add: check_error_rate_no_status)
    with Cons step False show ?thesis by simp
  next
    case True
    then obtain s where s: "upstream_status ld = Some s" "s \<noteq> []"
      by (auto simp: has_status_def)
    from True Cons.prems have short: "length (error_window st) < window_size st"
      by simp
    have win: "length (error_window st') = Suc (length (error_window st))"
      using check_error_rate_window [OF s, of st] step short
      by (simp add: length_deque_append)
    have "r = Inr None"
      using check_error_rate_partial [of ld st] step win Cons.prems True by simp
    moreover have "\<forall>r \<in> set (feed_error_rate lds st'). fst r = Inr None"
      using Cons.prems True win ws by (intro Cons.IH) simp
    ultimately show ?thesis using step by simp
  qed
qed

text \<open>
  C6. A call of \<open>check_error_rate\<close> that leaves fewer than \<open>window_size\<close> samples in the
  window raises no event, whatever the samples are. Hence over any sequence of records
  whose statuses, added to the samples already there, do not fill the window, every call
  returns no event.
\<close>

theorem check_error_rate_partial_window:
  "(length (error_window (snd (check_error_rate ld st))) < window_size st
      \<longrightarrow> fst (check_error_rate ld st) = Inr None)
   \<and> (length (error_window st) + length (filter has_status lds) < window_size st
      \<longrightarrow> (\<forall>r \<in> set (feed_error_rate lds st). fst r = Inr None))"
  using check_error_rate_partial [of ld st] feed_error_rate_partial [of st lds]
  by blast

theorem check_error_rate_partial_window_witness:
  "length (error_window (snd (check_error_rate (record_of ''blue'' (Some ''500'') ''t0'')
       (init None 2 5 300 False True)))) < window_size (init None 2 5 300 False True)
   \<and> fst (check_error_rate (record_of ''blue'' (Some ''500'') ''t0'')
       (init None 2 5 300 False True)) = Inr None
   \<and> length (error_window (init None 2 5 300 False True))
       + length (filter has_status (replicate 4 (record_of ''blue'' (Some ''500'') ''t0'')))
       < window_size (init None 2 5 300 False True)
   \<and> feed_error_rate (replicate 4 (record_of ''blue'' (Some ''500'') ''t0''))
        (init None 2 5 300 False True)
       = [(Inr None, [True]), (Inr None, [True, True]), (Inr None, [True, True, True]),
          (Inr None, [True, True, True, True])]"
  using check_error_rate_partial_window [of "record_of ''blue'' (Some ''500'') ''t0''"
      "init None 2 5 300 False True" "replicate 4 (record_of ''blue'' (Some ''500'') ''t0'')"]
  by (simp add: record_of_def init_def has_status_def check_error_rate_def deque_append_def
      startswith5_def Let_def numeral_eq_Suc)

text \<open>
  C9. Without an upstream status \<open>check_error_rate\<close> returns no event and leaves the
  state, and so the window, as it is. A pass of the loop over a line whose record has no
  upstream status leaves the window as it was before the line and raises no exception.
\<close>

theorem absent_status_is_noop:
  "(upstream_status ld = None \<longrightarrow> check_error_rate ld st = (Inr None, st))
   \<and> (line \<noteq> [] \<and> parse_log_line ts line st = (Some ld, st1) \<and> upstream_status ld = None
      \<longrightarrow> fst (watch_logs_step post ts now1 now2 line (st, posts)) = None
        \<and> error_window (fst (snd (watch_logs_step post ts now1 now2 line (st, posts))))
            = error_window st)"
proof -
  have "check_error_rate ld st = (Inr None, st)" if "upstream_status ld = None"
    using that by (simp add: check_error_rate_def)
  moreover have "fst (watch_logs_step post ts now1 now2 line (st, posts)) = None
        \<and> error_window (fst (snd (watch_logs_step post ts now1 now2 line (st, posts))))
            = error_window st"
    if a: "line \<noteq> [] \<and> parse_log_line ts line st = (Some ld, st1) \<and> upstream_status ld = None"
  proof -
    from a have noop: "check_error_rate ld st1 = (Inr None, st1)"
      by (simp add: check_error_rate_def)
    have "error_window st1 = error_window st"
      using a parse_log_line_frame [of ts line st "Some ld" st1] by auto
    with a noop show ?thesis
      by (simp add: watch_logs_step_parsed(2,3))
  qed
  ultimately show ?thesis by blast
qed

theorem absent_status_is_noop_witness:
  "upstream_status (record_of ''blue'' None ''t0'') = None
   \<and> check_error_rate (record_of ''blue'' None ''t0'')
         ((init None 2 5 300 False True)\<lparr>error_window := [True, True]\<rparr>)
       = (Inr None, (init None 2 5 300 False True)\<lparr>error_window := [True, True]\<rparr>)
   \<and> line_no_status \<noteq> []
   \<and> fst (parse_log_line ''t0'' line_no_status
             ((init None 2 5 300 False True)\<lparr>error_window := [True, True]\<rparr>)) \<noteq> None
   \<and> error_window (fst (snd (watch_logs_step (\<lambda>a. Status 200) ''t0'' 1000 1000 line_no_status
         ((init None 2 5 300 False True)\<lparr>error_window := [True, True]\<rparr>, []))))
       = [True, True]"
  using absent_status_is_noop [where ld = "record_of ''blue'' None ''t0''"
      and st = "(init None 2 5 300 False True)\<lparr>error_window := [True, True]\<rparr>"]
    absent_status_is_noop [where line = line_no_status and ts = "''t0''"
      and st = "(init None 2 5 300 False True)\<lparr>error_window := [True, True]\<rparr>"
      and ld = "\<lparr>pool = ''blue'', release = ''v1'', upstream_status = None,
            upstream_addr = None, request_time = Finite 0, timestamp = ''t0'',
            raw_line = line_no_status\<rparr>"
      and ?st1.0 = "(init None 2 5 300 False True)\<lparr>error_window := [True, True],
            total_lines_processed := 1, lines_with_pool := 1\<rparr>"
      and post = "\<lambda>a. Status 200" and ?now1.0 = 1000 and ?now2.0 = 1000 and posts = "[]"]
  by (simp add: parse_line_no_status record_of_def init_def)
    (simp add: line_no_status_def)

subsection \<open>The alert gate\<close>

lemma fl_1000: "fl (1000 - 0) = 1000"
  by code_simp

lemma fl_1100_1000: "fl (1100 - 1000) = 100"
  by code_simp

lemma fl_1300_1000: "fl (1300 - 1000) = 300"
  by code_simp






text \<open>
  C5. In maintenance mode \<open>send_slack_alert\<close> returns false for every alert, posts nothing
  and leaves the state, and with it \<open>last_alert_time\<close>, as it is: the test comes before
  the call of \<open>can_send_alert\<close>.
\<close>

theorem maintenance_mode_suppresses:
  "maintenance_mode st \<Longrightarrow> send_slack_alert post now a (st, posts) = (False, st, posts)"
  by (simp add: send_slack_alert_def)

theorem maintenance_mode_suppresses_witness:
  "maintenance_mode (init (Some ''https://hooks.example/T'') 2 200 300 True True)
   \<and> send_slack_alert (\<lambda>a. Status 200) 1000 (Failover ''blue'' ''green'' ''t0'')
        (init (Some ''https://hooks.example/T'') 2 200 300 True True, [])
      = (False, init (Some ''https://hooks.example/T'') 2 200 300 True True, [])"
  using maintenance_mode_suppresses [of "init (Some ''https://hooks.example/T'') 2 200 300 True True"
      "\<lambda>a. Status 200" 1000 "Failover ''blue'' ''green'' ''t0''" "[]"]
  by (simp add: init_def)

text \<open>
  C8. When an approved alert is posted and the post fails, by a response other than 200 or
  by an exception, \<open>send_slack_alert\<close> returns false after that single request, and the
  state it leaves is the one left by the approval, with the clock reading recorded for the
  kind: it is the same state for every outcome of the post. An alert of the same kind
  offered less than the cooldown later is rejected with nothing posted. Whatever the posts
  of a pass of the loop do, the state after the pass is the same, and with a positive
  window size the pass raises no exception, so the loop goes on to the next line.
\<close>

theorem delivery_failure_spec:
  assumes "approves now a st" and "post a \<noteq> Status 200"
  shows "send_slack_alert post now a (st, posts)
           = (False, st\<lparr>last_alert_time := (last_alert_time st)(alert_type a \<mapsto> now)\<rparr>, posts @ [a])
       \<and> (\<forall>post'. fst (snd (send_slack_alert post' now a (st, posts)))
              = fst (snd (send_slack_alert post now a (st, posts))))
       \<and> (\<forall>a' now' post' posts'.
             alert_type a' = alert_type a \<and> fl (now' - now) < of_int (cooldown_sec st) \<longrightarrow>
             send_slack_alert post' now' a'
               (st\<lparr>last_alert_time := (last_alert_time st)(alert_type a \<mapsto> now)\<rparr>, posts')
             = (False, st\<lparr>last_alert_time := (last_alert_time st)(alert_type a \<mapsto> now)\<rparr>, posts'))
       \<and> (\<forall>post' ts now1 now2 line s ps ps'.
             fst (snd (watch_logs_step post ts now1 now2 line (s, ps)))
               = fst (snd (watch_logs_step post' ts now1 now2 line (s, ps'))))
       \<and> (\<forall>ts now1 now2 line s ps.
             0 < window_size s \<longrightarrow> fst (watch_logs_step post ts now1 now2 line (s, ps)) = None)"
proof (intro conjI allI impI)
  show "send_slack_alert post now a (st, posts)
          = (False, st\<lparr>last_alert_time := (last_alert_time st)(alert_type a \<mapsto> now)\<rparr>, posts @ [a])"
    using assms by (simp add: send_slack_alert_eq)
next
  fix post'
  show "fst (snd (send_slack_alert post' now a (st, posts)))
          = fst (snd (send_slack_alert post now a (st, posts)))"
    by (simp add: send_slack_alert_eq)
next
  fix a' now' post' posts'
  assume "alert_type a' = alert_type a \<and> fl (now' - now) < of_int (cooldown_sec st)"
  then have "\<not> approves now' a' (st\<lparr>last_alert_time := (last_alert_time st)(alert_type a \<mapsto> now)\<rparr>)"
    by (simp add: approves_def can_send_alert_def time_since_last_def)
  then show "send_slack_alert post' now' a'
               (st\<lparr>last_alert_time := (last_alert_time st)(alert_type a \<mapsto> now)\<rparr>, posts')
             = (False, st\<lparr>last_alert_time := (last_alert_time st)(alert_type a \<mapsto> now)\<rparr>, posts')"
    by (simp add: send_slack_alert_eq)
next
  fix post' ts now1 now2 line and s :: watcher and ps ps'
  show "fst (snd (watch_logs_step post ts now1 now2 line (s, ps)))
          = fst (snd (watch_logs_step post' ts now1 now2 line (s, ps')))"
    by (rule watch_logs_step_state_indep)
next
  fix ts now1 now2 line and s :: watcher and ps
  assume "0 < window_size s"
  then show "fst (watch_logs_step post ts now1 now2 line (s, ps)) = None"
    by (rule watch_logs_step_no_exception)
qed

theorem delivery_failure_spec_witness:
  "approves 1000 (Failover ''blue'' ''green'' ''t0'')
     (init (Some ''https://hooks.example/T'') 2 200 300 False True)
   \<and> send_slack_alert (\<lambda>a. Status 503) 1000 (Failover ''blue'' ''green'' ''t0'')
        (init (Some ''https://hooks.example/T'') 2 200 300 False True, [])
       = (False,
          (init (Some ''https://hooks.example/T'') 2 200 300 False True)
            \<lparr>last_alert_time := [''failover'' \<mapsto> 1000]\<rparr>,
          [Failover ''blue'' ''green'' ''t0''])
   \<and> send_slack_alert (\<lambda>a. Status 200) 1100 (Failover ''green'' ''blue'' ''t1'')
        ((init (Some ''https://hooks.example/T'') 2 200 300 False True)
            \<lparr>last_alert_time := [''failover'' \<mapsto> 1000]\<rparr>,
         [Failover ''blue'' ''green'' ''t0''])
       = (False,
          (init (Some ''https://hooks.example/T'') 2 200 300 False True)
            \<lparr>last_alert_time := [''failover'' \<mapsto> 1000]\<rparr>,
          [Failover ''blue'' ''green'' ''t0''])"
  using delivery_failure_spec [where st = "init (Some ''https://hooks.example/T'') 2 200 300 False True"
      and a = "Failover ''blue'' ''green'' ''t0''" and now = 1000 and post = "\<lambda>a. Status 503"
      and posts = "[]"]
    fl_1000 fl_1100_1000
  by (simp add: approves_def can_send_alert_def time_since_last_def init_def send_slack_alert_eq)

subsection \<open>Both checks in one pass\<close>

text \<open>
  C7. For a line that parses to a record, the pass runs \<open>check_failover\<close> and then
  \<open>check_error_rate\<close>, each with the outcome it has on the state left by the parser: the
  stored pool after the pass is the one \<open>check_failover\<close> leaves, the window after the pass
  is the one \<open>check_error_rate\<close> leaves, and the guard on the upstream status only skips a
  call that would change nothing. The pass posts the failover alert if it is raised and
  approved, then the error-rate alert if it is raised and approved, neither depending on
  the other; when both are raised and approved, the posts of the pass are the failover
  alert followed by the error-rate alert.
\<close>

theorem watch_logs_step_both_checks:
  assumes "line \<noteq> []" and "parse_log_line ts line st = (Some ld, st1)"
  shows "last_pool (fst (snd (watch_logs_step post ts now1 now2 line (st, posts))))
           = last_pool (snd (check_failover ld st1))
       \<and> error_window (fst (snd (watch_logs_step post ts now1 now2 line (st, posts))))
           = error_window (snd (check_error_rate ld st1))
       \<and> (\<not> has_status ld \<longrightarrow> check_error_rate ld st1 = (Inr None, st1))
       \<and> snd (snd (watch_logs_step post ts now1 now2 line (st, posts)))
           = posts @ step_posts now1 now2 ld st1
       \<and> (\<forall>fa ea. fst (check_failover ld st1) = Some fa
              \<and> fst (check_error_rate ld st1) = Inr (Some ea)
              \<and> approves now1 fa st1 \<and> approves now2 ea st1 \<longrightarrow>
            snd (snd (watch_logs_step post ts now1 now2 line (st, posts))) = posts @ [fa, ea])"
proof -
  have posts: "snd (snd (watch_logs_step post ts now1 now2 line (st, posts)))
                 = posts @ step_posts now1 now2 ld st1"
    using assms by (rule watch_logs_step_parsed(1))
  have both: "step_posts now1 now2 ld st1 = [fa, ea]"
    if "fst (check_failover ld st1) = Some fa \<and> fst (check_error_rate ld st1) = Inr (Some ea)
        \<and> approves now1 fa st1 \<and> approves now2 ea st1" for fa ea
    using that by (simp add: step_posts_def)
  show ?thesis
    using watch_logs_step_parsed(3,4) [OF assms] check_error_rate_no_status [of ld st1] posts both
    by simp
qed

theorem watch_logs_step_both_checks_witness:
  "line_green_502 \<noteq> []
   \<and> fst (parse_log_line ''t1'' line_green_502
       ((init (Some ''https://hooks.example/T'') 20 5 300 False True)
          \<lparr>last_pool := Some ''blue'', error_window := [False, False, False, True]\<rparr>)) \<noteq> None
   \<and> snd (snd (watch_logs_step (\<lambda>a. Status 200) ''t1'' 1000 1000 line_green_502
       ((init (Some ''https://hooks.example/T'') 20 5 300 False True)
          \<lparr>last_pool := Some ''blue'', error_window := [False, False, False, True]\<rparr>, [])))
      = [Failover ''blue'' ''green'' ''t1'', HighErrorRate 40 20 5 2 ''t1'']"
proof -
  let ?st = "(init (Some ''https://hooks.example/T'') 20 5 300 False True)
          \<lparr>last_pool := Some ''blue'', error_window := [False, False, False, True]\<rparr>"
  let ?ld = "\<lparr>pool = ''green'', release = ''unknown'', upstream_status = Some ''502'',
            upstream_addr = None, request_time = Finite 0, timestamp = ''t1'',
            raw_line = line_green_502\<rparr>"
  let ?st1 = "?st\<lparr>total_lines_processed := total_lines_processed ?st + 1,
         lines_with_pool := lines_with_pool ?st + 1\<rparr>"
  have ne: "line_green_502 \<noteq> []"
    by (simp add: line_green_502_def)
  have parse: "parse_log_line ''t1'' line_green_502 ?st = (Some ?ld, ?st1)"
    by (rule parse_line_green_502)
  have f: "fst (check_failover ?ld ?st1) = Some (Failover ''blue'' ''green'' ''t1'')"
    by (simp add: check_failover_def init_def)
  have e: "fst (check_error_rate ?ld ?st1) = Inr (Some (HighErrorRate 40 20 5 2 ''t1''))"
    by (simp add: check_error_rate_def init_def deque_append_def startswith5_def Let_def
        rate_2_of_5 py_round2_40)
  have a1: "approves 1000 (Failover ''blue'' ''green'' ''t1'') ?st1"
    using fl_1000 by (simp add: approves_def can_send_alert_def time_since_last_def init_def)
  have a2: "approves 1000 (HighErrorRate 40 20 5 2 ''t1'') ?st1"
    using fl_1000 by (simp add: approves_def can_send_alert_def time_since_last_def init_def)
  have "\<forall>fa ea. fst (check_failover ?ld ?st1) = Some fa
              \<and> fst (check_error_rate ?ld ?st1) = Inr (Some ea)
              \<and> approves 1000 fa ?st1 \<and> approves 1000 ea ?st1 \<longrightarrow>
            snd (snd (watch_logs_step (\<lambda>a. Status 200) ''t1'' 1000 1000 line_green_502 (?st, [])))
              = [] @ [fa, ea]"
    using watch_logs_step_both_checks [OF ne parse, of "\<lambda>a. Status 200" 1000 1000 "[]"]
    by blast
  with f e a1 a2
  have posts: "snd (snd (watch_logs_step (\<lambda>a. Status 200) ''t1'' 1000 1000 line_green_502 (?st, [])))
          = [Failover ''blue'' ''green'' ''t1'', HighErrorRate 40 20 5 2 ''t1'']"
    by fastforce
  have "fst (parse_log_line ''t1'' line_green_502 ?st) \<noteq> None"
    by (simp only: parse fst_conv) simp
  with ne posts show ?thesis by blast
qed

subsection \<open>The parser\<close>

lemma strip_prefix_Some: "strip_prefix p s = Some r \<longleftrightarrow> s = p @ r"
  by (induction p s rule: strip_prefix.induct) auto

lemma re_search_Some:
  "re_search m s = Some g \<Longrightarrow> \<exists>pre t. s = pre @ t \<and> m t = Some g"
proof (induction s)
  case Nil
  then show ?case by auto
next
  case (Cons c cs)
  show ?case
  proof (cases "m (c # cs)")
    case None
    with Cons obtain pre t where "cs = pre @ t" "m t = Some g" by auto
    then have "c # cs = (c # pre) @ t \<and> m t = Some g" by simp
    then show ?thesis by blast
  next
    case (Some h)
    with Cons.prems have "c # cs = [] @ (c # cs) \<and> m (c # cs) = Some g" by simp
    then show ?thesis by blast
  qed
qed

lemma strip_eq_Nil: "strip s = [] \<longleftrightarrow> (\<forall>c \<in> set s. isspace c)"
proof
  assume "strip s = []"
  then have all: "\<forall>c \<in> set (dropWhile isspace s). isspace c"
    by (simp add: strip_def dropWhile_eq_Nil_conv)
  have "dropWhile isspace s = []"
  proof (rule ccontr)
    assume ne: "dropWhile isspace s \<noteq> []"
    then have "\<not> isspace (hd (dropWhile isspace s))" by (rule hd_dropWhile)
    moreover from ne have "hd (dropWhile isspace s) \<in> set (dropWhile isspace s)" by simp
    ultimately show False using all by blast
  qed
  then show "\<forall>c \<in> set s. isspace c"
    by (simp add: dropWhile_eq_Nil_conv)
next
  assume "\<forall>c \<in> set s. isspace c"
  then show "strip s = []"
    by (auto simp: strip_def dest: set_dropWhileD)
qed

text \<open>A line with a pool token is not blank.\<close>

lemma pool_match_not_blank:
  assumes "pool_match line = Some p"
  shows "strip line \<noteq> []"
proof -
  obtain pre t where t: "line = pre @ t" "match_quoted ''pool'' t = Some p"
    using assms re_search_Some unfolding pool_match_def by blast
  then obtain r where "strip_prefix (''pool'' @ [CHR ''='', dquote]) t = Some r"
    by (auto simp: match_quoted_def split: option.splits)
  then have "t = (''pool'' @ [CHR ''='', dquote]) @ r"
    by (simp only: strip_prefix_Some)
  with t have "CHR ''p'' \<in> set line" by simp
  moreover have "\<not> isspace CHR ''p''" by (simp add: isspace_def)
  ultimately show ?thesis by (auto simp: strip_eq_Nil)
qed

text \<open>The group of the request-time pattern is a non-empty string of digits and dots.\<close>

lemma request_time_match_chars:
  assumes "request_time_match line = Some g"
  shows "g \<noteq> [] \<and> (\<forall>c \<in> set g. isdigit c \<or> c = CHR ''.'')"
proof -
  obtain t where "match_class ''request_time'' (\<lambda>c. isdigit c \<or> c = CHR ''.'') t = Some g"
    using assms re_search_Some unfolding request_time_match_def by blast
  then obtain r where "g = takeWhile (\<lambda>c. isdigit c \<or> c = CHR ''.'') r" "g \<noteq> []"
    by (auto simp: match_class_def Let_def split: option.splits if_splits)
  then show ?thesis
    using set_takeWhileD [of _ "\<lambda>c. isdigit c \<or> c = CHR ''.''" r] by blast
qed

lemma parse_log_line_accepts:
  "fst (parse_log_line ts line st) \<noteq> None \<longleftrightarrow>
     pool_match line \<noteq> None
     \<and> (\<forall>g. request_time_match line = Some g \<longrightarrow> float_of_group g \<noteq> Inl ValueError)"
proof (cases "pool_match line")
  case None
  then show ?thesis by (simp add: parse_log_line_def Let_def)
next
  case (Some p)
  then have "strip line \<noteq> []" by (rule pool_match_not_blank)
  with Some show ?thesis
    by (cases "request_time_match line"; cases "float_of_group (the (request_time_match line))")
      (auto simp: parse_log_line_def Let_def float_of_group_def split: if_splits)
qed

text \<open>
  C3, as the code has it. When a line has a pool token and the group of its request-time
  token is not a float literal (it has more than one dot, or no digit), the conversion
  raises \<open>ValueError\<close>, the \<open>except\<close> clause catches it, and \<open>parse_log_line\<close> returns no
  record for the line, having counted it among the lines with a pool. The request time
  is 0 when the line has a pool token and no request-time token.
\<close>

theorem malformed_request_time_drops_line:
  "(pool_match line = Some p \<and> request_time_match line = Some g
      \<and> float_of_group g = Inl ValueError \<longrightarrow>
      parse_log_line ts line st
        = (None, st\<lparr>total_lines_processed := total_lines_processed st + 1,
                    lines_with_pool := lines_with_pool st + 1\<rparr>))
   \<and> (float_of_group g = Inl ValueError \<longleftrightarrow>
        1 < length (filter (\<lambda>c. c = CHR ''.'') g) \<or> filter isdigit g = [])
   \<and> (pool_match line = Some p \<and> request_time_match line = None \<longrightarrow>
        (\<exists>ld. fst (parse_log_line ts line st) = Some ld \<and> pool ld = p
              \<and> request_time ld = Finite 0))"
proof (intro conjI impI)
  assume a: "pool_match line = Some p \<and> request_time_match line = Some g
      \<and> float_of_group g = Inl ValueError"
  then have "strip line \<noteq> []" by (simp add: pool_match_not_blank)
  with a show "parse_log_line ts line st
        = (None, st\<lparr>total_lines_processed := total_lines_processed st + 1,
                    lines_with_pool := lines_with_pool st + 1\<rparr>)"
    by (simp add: parse_log_line_def)
next
  show "float_of_group g = Inl ValueError \<longleftrightarrow>
        1 < length (filter (\<lambda>c. c = CHR ''.'') g) \<or> filter isdigit g = []"
    by (simp add: float_of_group_def Let_def)
next
  assume a: "pool_match line = Some p \<and> request_time_match line = None"
  then have "strip line \<noteq> []" by (simp add: pool_match_not_blank)
  with a show "\<exists>ld. fst (parse_log_line ts line st) = Some ld \<and> pool ld = p
              \<and> request_time ld = Finite 0"
    by (simp add: parse_log_line_def)
qed

theorem malformed_request_time_drops_line_witness:
  "pool_match line_bad_time = Some ''blue''
   \<and> request_time_match line_bad_time = Some ''1.2.3''
   \<and> float_of_group ''1.2.3'' = Inl ValueError
   \<and> parse_log_line ''t0'' line_bad_time (init None 2 200 300 False True)
       = (None, (init None 2 200 300 False True)\<lparr>total_lines_processed := 1, lines_with_pool := 1\<rparr>)
   \<and> pool_match line_no_status = Some ''blue''
   \<and> request_time_match line_no_status = None
   \<and> map_option request_time (fst (parse_log_line ''t0'' line_no_status (init None 2 200 300 False True)))
       = Some (Finite 0)"
proof -
  let ?st = "init None 2 200 300 False True"
  have p: "pool_match line_bad_time = Some ''blue''"
    by (simp add: line_bad_time_def line_defs pool_match_def match_quoted_def)
  have g: "request_time_match line_bad_time = Some ''1.2.3''"
    by (simp add: line_bad_time_def line_defs request_time_match_def match_class_def isdigit_def)
  have v: "float_of_group ''1.2.3'' = Inl ValueError"
    by (simp add: float_of_group_def)
  have dropped: "parse_log_line ''t0'' line_bad_time ?st
        = (None, ?st\<lparr>total_lines_processed := total_lines_processed ?st + 1,
                    lines_with_pool := lines_with_pool ?st + 1\<rparr>)"
    using malformed_request_time_drops_line [where line = line_bad_time and p = "''blue''"
        and g = "''1.2.3''" and ts = "''t0''" and st = ?st] p g v
    by blast
  have p': "pool_match line_no_status = Some ''blue''"
    by (simp add: line_no_status_def line_defs pool_match_def match_quoted_def)
  have g': "request_time_match line_no_status = None"
    by (simp add: line_no_status_def line_defs request_time_match_def match_class_def)
  have "\<exists>ld. fst (parse_log_line ''t0'' line_no_status ?st) = Some ld \<and> pool ld = ''blue''
              \<and> request_time ld = Finite 0"
    using malformed_request_time_drops_line [where line = line_no_status and p = "''blue''"
        and ts = "''t0''" and st = ?st] p' g'
    by blast
  then have zero: "map_option request_time (fst (parse_log_line ''t0'' line_no_status ?st))
                     = Some (Finite 0)"
    by auto
  have "?st\<lparr>total_lines_processed := total_lines_processed ?st + 1,
            lines_with_pool := lines_with_pool ?st + 1\<rparr>
          = ?st\<lparr>total_lines_processed := 1, lines_with_pool := 1\<rparr>"
    by (simp add: init_def)
  with dropped have "parse_log_line ''t0'' line_bad_time ?st
        = (None, ?st\<lparr>total_lines_processed := 1, lines_with_pool := 1\<rparr>)"
    by (simp only:)
  with p g v p' g' zero show ?thesis by blast
qed

text \<open>The line \<open>pool="blue" request_time=1.2.3\<close> has a pool token, and its request-time
  token is matched with the group \<open>1.2.3\<close>; \<open>parse_log_line\<close> returns no record for it.\<close>

theorem malformed_request_time_counterexample:
  "pool_match line_bad_time = Some ''blue''
   \<and> request_time_match line_bad_time = Some ''1.2.3''
   \<and> fst (parse_log_line ''t0'' line_bad_time (init None 2 200 300 False True)) = None"
  by (simp add: parse_line_bad_time)
    (simp add: line_bad_time_def line_defs pool_match_def request_time_match_def
      match_quoted_def match_class_def isdigit_def)

text \<open>
  C10, as the code has it. When \<open>parse_log_line\<close> returns a record for a line in which the
  first match of the upstream-status pattern is the lone dash, the record's upstream
  status is the string \<open>-\<close>, \<open>check_error_rate\<close> appends a non-error sample for it to the
  window of any state, and the pass of the loop over the line leaves the window of before
  with that sample appended. A record is returned exactly for the lines that have a pool
  token and whose request-time token, if there is one, is a float literal.
\<close>

theorem dash_status_enters_window:
  "(upstream_status_match line = Some ''-'' \<and> parse_log_line ts line st = (Some ld, st1) \<longrightarrow>
      upstream_status ld = Some ''-''
      \<and> (\<forall>s. error_window (snd (check_error_rate ld s))
               = deque_append (window_size s) (error_window s) False)
      \<and> error_window (fst (snd (watch_logs_step post ts now1 now2 line (st, posts))))
          = deque_append (window_size st) (error_window st) False)
   \<and> (fst (parse_log_line ts line st) \<noteq> None \<longleftrightarrow>
        pool_match line \<noteq> None
        \<and> (\<forall>g. request_time_match line = Some g \<longrightarrow> float_of_group g \<noteq> Inl ValueError))"
proof -
  have "upstream_status ld = Some ''-''
      \<and> (\<forall>s. error_window (snd (check_error_rate ld s))
               = deque_append (window_size s) (error_window s) False)
      \<and> error_window (fst (snd (watch_logs_step post ts now1 now2 line (st, posts))))
          = deque_append (window_size st) (error_window st) False"
    if a: "upstream_status_match line = Some ''-'' \<and> parse_log_line ts line st = (Some ld, st1)"
  proof -
    from a have status: "upstream_status ld = Some ''-''"
      by (auto simp: parse_log_line_def Let_def split: if_splits option.splits sum.splits)
    then have win: "error_window (snd (check_error_rate ld s))
               = deque_append (window_size s) (error_window s) False" for s
      using check_error_rate_window [of ld "''-''" s] by (simp add: startswith5_def)
    from a have "line \<noteq> []"
      by (auto simp: parse_log_line_def strip_def)
    with a have "error_window (fst (snd (watch_logs_step post ts now1 now2 line (st, posts))))
                   = error_window (snd (check_error_rate ld st1))"
      by (simp add: watch_logs_step_parsed(3))
    moreover have "window_size st1 = window_size st" "error_window st1 = error_window st"
      using a parse_log_line_frame [of ts line st "Some ld" st1] by auto
    ultimately show ?thesis using status win by simp
  qed
  then show ?thesis using parse_log_line_accepts [of ts line st] by blast
qed

theorem dash_status_enters_window_witness:
  "upstream_status_match line_dash = Some ''-''
   \<and> map_option upstream_status
        (fst (parse_log_line ''t0'' line_dash
           ((init None 2 5 300 False True)\<lparr>error_window := [True, True]\<rparr>))) = Some (Some ''-'')
   \<and> error_window (fst (snd (watch_logs_step (\<lambda>a. Status 200) ''t0'' 1000 1000 line_dash
         ((init None 2 5 300 False True)\<lparr>error_window := [True, True]\<rparr>, []))))
       = [True, True, False]"
proof -
  let ?st = "(init None 2 5 300 False True)\<lparr>error_window := [True, True]\<rparr>"
  let ?ld = "\<lparr>pool = ''blue'', release = ''unknown'', upstream_status = Some ''-'',
            upstream_addr = None, request_time = Finite (1 / 2), timestamp = ''t0'',
            raw_line = line_dash\<rparr>"
  let ?st1 = "?st\<lparr>total_lines_processed := total_lines_processed ?st + 1,
         lines_with_pool := lines_with_pool ?st + 1\<rparr>"
  have m: "upstream_status_match line_dash = Some ''-''"
    by (simp add: line_dash_def line_defs upstream_status_match_def match_class_def isdigit_def)
  have parse: "parse_log_line ''t0'' line_dash ?st = (Some ?ld, ?st1)"
    by (rule parse_line_dash)
  have "upstream_status ?ld = Some ''-''
      \<and> error_window (fst (snd (watch_logs_step (\<lambda>a. Status 200) ''t0'' 1000 1000 line_dash
            (?st, []))))
          = deque_append (window_size ?st) (error_window ?st) False"
    using dash_status_enters_window [where line = line_dash and ts = "''t0''" and st = ?st
      and ld = ?ld and ?st1.0 = ?st1 and post = "\<lambda>a. Status 200" and ?now1.0 = 1000
      and ?now2.0 = 1000 and posts = "[]"] m parse
    by blast
  moreover have "deque_append (window_size ?st) (error_window ?st) False = [True, True, False]"
    by (simp add: init_def deque_append_def)
  moreover have "map_option upstream_status (fst (parse_log_line ''t0'' line_dash ?st))
                   = Some (Some ''-'')"
    by (simp only: parse fst_conv) simp
  ultimately show ?thesis using m by simp
qed

text \<open>The line \<open>upstream_status=- request_time=0.5\<close> holds the lone dash and no pool token;
  \<open>parse_log_line\<close> returns no record for it.\<close>

theorem dash_status_counterexample:
  "upstream_status_match line_no_pool = Some ''-''
   \<and> fst (parse_log_line ''t0'' line_no_pool (init None 2 200 300 False True)) = None"
  by (simp add: parse_line_no_pool)
    (simp add: line_no_pool_def upstream_status_match_def match_class_def isdigit_def)

end
